theory Spec2Isabelle
  imports Complex_Main
begin

section \<open>Values shared by the embedding\<close>

text \<open>
  A numpy float64 is either a finite number or one of the three special values.
  Rounding and the sign of zero are not represented: a finite value carries a real.
\<close>

datatype npfloat = Finite real | PosInf | NegInf | NaN

text \<open>The exceptions the embedded code can raise; a \<open>ValueError\<close> carries its message.\<close>

datatype error = ValueError string | AttributeError | TypeError | IndexError

type_synonym array1d = "npfloat list"
type_synonym image = "npfloat list list"

text \<open>
  A parameter bundle is a list of dictionaries from names to values, or \<open>None\<close>;
  \<open>kwargs_special\<close> is one dictionary, or \<open>None\<close>.
\<close>

datatype pyval = PyInt int | PyFloat npfloat | PyArray array1d | PyStr string

type_synonym kwargs = "string \<rightharpoonup> pyval"
type_synonym kwargs_list = "kwargs list option"
type_synonym param = array1d

subsection \<open>The numpy operations the code applies\<close>

fun np_isfinite :: "npfloat \<Rightarrow> bool" where
  "np_isfinite (Finite v) = True"
| "np_isfinite PosInf = False"
| "np_isfinite NegInf = False"
| "np_isfinite NaN = False"

fun np_neg :: "npfloat \<Rightarrow> npfloat" where
  "np_neg (Finite v) = Finite (- v)"
| "np_neg PosInf = NegInf"
| "np_neg NegInf = PosInf"
| "np_neg NaN = NaN"

fun np_add :: "npfloat \<Rightarrow> npfloat \<Rightarrow> npfloat" where
  "np_add (Finite a) (Finite b) = Finite (a + b)"
| "np_add NaN _ = NaN"
| "np_add _ NaN = NaN"
| "np_add PosInf NegInf = NaN"
| "np_add NegInf PosInf = NaN"
| "np_add PosInf _ = PosInf"
| "np_add _ PosInf = PosInf"
| "np_add NegInf _ = NegInf"
| "np_add _ NegInf = NegInf"

definition np_sub :: "npfloat \<Rightarrow> npfloat \<Rightarrow> npfloat" where
  "np_sub a b = np_add a (np_neg b)"

text \<open>\<open>1 / c\<close> on one entry of a float array: numpy divides by zero without raising.\<close>

fun np_recip :: "npfloat \<Rightarrow> npfloat" where
  "np_recip (Finite v) = (if v = 0 then PosInf else Finite (1 / v))"
| "np_recip PosInf = Finite 0"
| "np_recip NegInf = Finite 0"
| "np_recip NaN = NaN"

text \<open>A numpy float divided by a Python integer.\<close>

fun np_div_int :: "npfloat \<Rightarrow> int \<Rightarrow> npfloat" where
  "np_div_int (Finite a) n =
     (if n = 0 then (if 0 < a then PosInf else if a < 0 then NegInf else NaN)
      else Finite (a / real_of_int n))"
| "np_div_int PosInf n = (if n < 0 then NegInf else PosInf)"
| "np_div_int NegInf n = (if n < 0 then PosInf else NegInf)"
| "np_div_int NaN n = NaN"

text \<open>The largest finite float64, which \<open>nan_to_num\<close> puts in the place of an infinity.\<close>

definition np_float_max :: real where
  "np_float_max = (2 - 1 / 2 ^ 52) * 2 ^ 1023"

fun nan_to_num_entry :: "npfloat \<Rightarrow> npfloat" where
  "nan_to_num_entry (Finite v) = Finite v"
| "nan_to_num_entry NaN = Finite 0"
| "nan_to_num_entry PosInf = Finite np_float_max"
| "nan_to_num_entry NegInf = Finite (- np_float_max)"

definition nan_to_num :: "image \<Rightarrow> image" where
  "nan_to_num A = map (map nan_to_num_entry) A"

definition zeros_like :: "array1d \<Rightarrow> array1d" where
  "zeros_like x = replicate (length x) (Finite 0)"

definition broadcast_error :: error where
  "broadcast_error = ValueError ''operands could not be broadcast together''"

text \<open>
  \<open>a += b\<close> on one-dimensional arrays: \<open>b\<close> has the length of \<open>a\<close> or is
  stretched from one entry; any other length raises.
\<close>

definition np_iadd :: "array1d \<Rightarrow> array1d \<Rightarrow> error + array1d" where
  "np_iadd a b =
     (if length b = length a then Inr (map2 np_add a b)
      else if length b = 1 then Inr (map (\<lambda>v. np_add v (b ! 0)) a)
      else Inl broadcast_error)"

text \<open>\<open>a - b\<close> on one-dimensional arrays, where either side may be stretched.\<close>

definition np_sub_arr :: "array1d \<Rightarrow> array1d \<Rightarrow> error + array1d" where
  "np_sub_arr a b =
     (if length a = length b then Inr (map2 np_sub a b)
      else if length b = 1 then Inr (map (\<lambda>v. np_sub v (b ! 0)) a)
      else if length a = 1 then Inr (map (\<lambda>v. np_sub (a ! 0) v) b)
      else Inl broadcast_error)"

text \<open>\<open>A[i, :] = v\<close> for a row of \<open>n\<close> entries.\<close>

definition set_row :: "nat \<Rightarrow> array1d \<Rightarrow> error + array1d" where
  "set_row n v =
     (if length v = n then Inr v
      else if length v = 1 then Inr (replicate n (v ! 0))
      else Inl broadcast_error)"

text \<open>\<open>A.T\<close> for a matrix whose rows have \<open>ncols\<close> entries.\<close>

definition np_T :: "nat \<Rightarrow> image \<Rightarrow> image" where
  "np_T ncols A = map (\<lambda>j. map (\<lambda>row. row ! j) A) [0..<ncols]"

section \<open>\<open>ImageSparseFit.__init__\<close>: selection of the sparse solver\<close>

text \<open>
  The fields of the instance that \<open>__init__\<close> reads once the constructor of the super
  class has run. \<open>LensLightModel\<close> and \<open>PointSource\<close> are tested against \<open>None\<close> by
  the code, so they are optional; each carries the list of type names of the object
  (\<open>profile_type_list\<close>, \<open>point_source_type_list\<close>). \<open>psf_error_map\<close> is the array
  \<open>self.PSF.psf_error_map\<close>.
\<close>

record image_fit =
  LensLightModel :: "string list option"
  PointSource :: "string list option"
  SourceModel :: "string list option"
  psf_error_map :: image

text \<open>The three solver classes of SLITronomy, of which \<open>__init__\<close> instantiates at most one.\<close>

datatype sparse_solver = SparseSolverSource | SparseSolverSourceLens | SparseSolverSourcePS

text \<open>
  What \<open>__init__\<close> leaves behind: the attribute \<open>sparseSolver\<close> (\<open>None\<close> when no
  branch assigned it), the source supersampling factor and the lines printed.
\<close>

record image_sparse_fit =
  sparseSolver :: "sparse_solver option"
  subgrid_res_source :: int
  printed :: "string list"

text \<open>The apostrophe of the messages, which a string literal cannot hold.\<close>

definition apostrophe :: string where
  "apostrophe = [CHR 0x27]"

definition quoted_starlets :: string where
  "quoted_starlets =
     apostrophe @ ''STARLETS'' @ apostrophe @ '' or '' @
     apostrophe @ ''STARLETS_GEN2'' @ apostrophe"

definition source_error_msg :: string where
  "source_error_msg =
     quoted_starlets @ '' must be the only source model list for sparse fit''"

definition lens_light_error_msg :: string where
  "lens_light_error_msg =
     quoted_starlets @ '' must be the only lens light model list for sparse fit''"

definition psf_error_map_warning :: string where
  "psf_error_map_warning =
     ''WARNING : SparseSolver with point sources does not support PSF error map for now !''"

definition starlet_names :: "string list" where
  "starlet_names = [''STARLETS'', ''STARLETS_GEN2'']"

definition no_lens_light :: "image_fit \<Rightarrow> bool" where
  "no_lens_light s =
     (case LensLightModel s of None \<Rightarrow> True | Some l \<Rightarrow> length l = 0)"

definition no_point_sources :: "image_fit \<Rightarrow> bool" where
  "no_point_sources s =
     (case PointSource s of None \<Rightarrow> True | Some l \<Rightarrow> length l = 0)"

text \<open>\<open>np.all(a == 0)\<close> on a two-dimensional array.\<close>

definition np_all_zero :: "image \<Rightarrow> bool" where
  "np_all_zero a = list_all (list_all (\<lambda>v. v = Finite 0)) a"

text \<open>
  The condition \<open>len(model_list) != 1 or model_list[0] not in [...]\<close>; the second
  disjunct is read only when the list has one element.
\<close>

definition not_single_starlet :: "string list \<Rightarrow> bool" where
  "not_single_starlet model_list =
     (length model_list \<noteq> 1 \<or> model_list ! 0 \<notin> set starlet_names)"

text \<open>
  \<open>__init__\<close> after the call of the super constructor. \<open>kwargs_sparse_solver\<close> is
  read for the key \<open>subgrid_res_source\<close> only (default 1). The constructors of the
  numerics, of the solver chosen and of the lensing operator belong to other packages
  and are not embedded: the model records which solver class is instantiated.
\<close>

definition init :: "image_fit \<Rightarrow> (string \<rightharpoonup> int) \<Rightarrow> error + image_sparse_fit" where
  "init s kwargs_sparse_solver =
     (let res = (case kwargs_sparse_solver ''subgrid_res_source'' of
                   None \<Rightarrow> 1 | Some v \<Rightarrow> v)
      in
      if no_lens_light s \<and> no_point_sources s then
        (case SourceModel s of
           None \<Rightarrow> Inl AttributeError
         | Some model_list \<Rightarrow>
             if not_single_starlet model_list then Inl (ValueError source_error_msg)
             else Inr \<lparr>sparseSolver = Some SparseSolverSource,
                       subgrid_res_source = res, printed = []\<rparr>)
      else if no_point_sources s then
        (case LensLightModel s of
           None \<Rightarrow> Inl AttributeError
         | Some model_list \<Rightarrow>
             if not_single_starlet model_list then Inl (ValueError lens_light_error_msg)
             else Inr \<lparr>sparseSolver = Some SparseSolverSourceLens,
                       subgrid_res_source = res, printed = []\<rparr>)
      else if no_lens_light s then
        Inr \<lparr>sparseSolver = Some SparseSolverSourcePS,
             subgrid_res_source = res,
             printed = (if \<not> np_all_zero (psf_error_map s)
                        then [psf_error_map_warning] else [])\<rparr>
      else
        Inr \<lparr>sparseSolver = None, subgrid_res_source = res, printed = []\<rparr>)"

section \<open>The instance and its collaborators\<close>

text \<open>
  The attributes of an \<open>ImageSparseFit\<close> instance that the methods below read, and the
  methods and functions they call whose code lies in the super classes, in SLITronomy
  or in other modules (\<open>de_lens.get_param_WLS\<close>, \<open>util.array2image\<close>). Those are
  fields of the record: a method embedded here is stated for every value they may take.
  \<open>sparseSolver_solve\<close>, \<open>PointSource_update_linear\<close> and
  \<open>LensLightModel_surface_brightness\<close> are \<open>None\<close> when the object holding the
  method is absent (the attribute \<open>sparseSolver\<close> never assigned, \<open>PointSource\<close> or
  \<open>LensLightModel\<close> equal to \<open>None\<close>). An exception raised inside a collaborator, and
  the caches a collaborator may keep, are outside the model; \<open>array2image\<close>, which
  raises on a length that is not a square, returns a sum.
\<close>

record sparse_fit =
  Data_num_pixel :: int
  Data_pixel_width :: npfloat
  Data_log_likelihood :: "image \<Rightarrow> bool list list option \<Rightarrow> image \<Rightarrow> npfloat"
  likelihood_mask :: "bool list list option"
  self_subgrid_res_source :: int
  error_response :: "kwargs_list \<Rightarrow> kwargs_list \<Rightarrow> kwargs option \<Rightarrow> array1d \<times> image"
  point_source :: "kwargs_list \<Rightarrow> kwargs_list \<Rightarrow> kwargs option \<Rightarrow> image"
  sparseSolver_solve ::
    "(kwargs_list \<Rightarrow> kwargs_list \<Rightarrow> kwargs_list \<Rightarrow> kwargs_list \<Rightarrow> kwargs option \<Rightarrow> image
        \<Rightarrow> image \<times> param) option"
  update_linear_kwargs ::
    "param \<Rightarrow> kwargs_list \<Rightarrow> kwargs_list \<Rightarrow> kwargs_list \<Rightarrow> kwargs_list
        \<Rightarrow> kwargs_list \<times> kwargs_list \<times> kwargs_list \<times> kwargs_list"
  point_source_linear_response_set ::
    "kwargs_list \<Rightarrow> kwargs_list \<Rightarrow> kwargs option
        \<Rightarrow> array1d list \<times> array1d list \<times> array1d list \<times> nat"
  num_data_evaluate :: nat
  point_source_rendering :: "array1d \<Rightarrow> array1d \<Rightarrow> array1d \<Rightarrow> image"
  image2array_masked :: "image \<Rightarrow> array1d"
  array_masked2image :: "array1d \<Rightarrow> image"
  data_response :: array1d
  get_param_WLS :: "image \<Rightarrow> array1d \<Rightarrow> array1d \<Rightarrow> bool \<Rightarrow> param \<times> image option \<times> array1d"
  PointSource_update_linear ::
    "(param \<Rightarrow> nat \<Rightarrow> kwargs_list \<Rightarrow> kwargs_list \<Rightarrow> kwargs_list \<times> nat) option"
  coordinates_evaluate :: "array1d \<times> array1d"
  LensLightModel_surface_brightness ::
    "(array1d \<Rightarrow> array1d \<Rightarrow> kwargs_list \<Rightarrow> int option \<Rightarrow> array1d) option"
  array2image :: "array1d \<Rightarrow> error + image"

section \<open>\<open>update_fixed_param\<close> and \<open>update_sparse_kwargs\<close>\<close>

text \<open>
  The code writes into the first dictionary of each bundle in place and returns the
  two bundles; the model returns the bundles as they stand after the call. Indexing
  \<open>None\<close> raises \<open>TypeError\<close>, indexing an empty list \<open>IndexError\<close>. The source
  supersampling factor is a Python integer, so \<open>int(...)\<close> of the product changes
  nothing. The source and the lens-light bundle are distinct objects.
\<close>

definition update_fixed_param ::
  "sparse_fit \<Rightarrow> kwargs_list \<Rightarrow> kwargs_list \<Rightarrow> error + (kwargs_list \<times> kwargs_list)" where
  "update_fixed_param self kwargs_source kwargs_lens_light =
     (case kwargs_source of
        None \<Rightarrow> Inl TypeError
      | Some [] \<Rightarrow> Inl IndexError
      | Some (k0 # rest) \<Rightarrow>
          Inr (Some (k0(''n_pixels'' \<mapsto>
                          PyInt (Data_num_pixel self * (self_subgrid_res_source self)\<^sup>2),
                        ''scale'' \<mapsto>
                          PyFloat (np_div_int (Data_pixel_width self)
                                     (self_subgrid_res_source self)),
                        ''center_x'' \<mapsto> PyInt 0,
                        ''center_y'' \<mapsto> PyInt 0) # rest),
               (case kwargs_lens_light of
                  None \<Rightarrow> None
                | Some [] \<Rightarrow> Some []
                | Some (l0 # lrest) \<Rightarrow>
                    Some (l0(''n_pixels'' \<mapsto> PyInt (Data_num_pixel self),
                             ''scale'' \<mapsto> PyFloat (Data_pixel_width self),
                             ''center_x'' \<mapsto> PyInt 0,
                             ''center_y'' \<mapsto> PyInt 0) # lrest))))"

definition update_sparse_kwargs ::
  "sparse_fit \<Rightarrow> param \<Rightarrow> kwargs_list \<Rightarrow> kwargs_list \<Rightarrow> kwargs_list \<Rightarrow> kwargs_list
     \<Rightarrow> error + (kwargs_list \<times> kwargs_list \<times> kwargs_list \<times> kwargs_list)" where
  "update_sparse_kwargs self prm kwargs_lens kwargs_source kwargs_lens_light kwargs_ps =
     (case update_fixed_param self kwargs_source kwargs_lens_light of
        Inl e \<Rightarrow> Inl e
      | Inr (kwargs_source1, kwargs_lens_light1) \<Rightarrow>
          Inr (update_linear_kwargs self prm kwargs_lens kwargs_source1 kwargs_lens_light1
                 kwargs_ps))"

section \<open>\<open>lens_surface_brightness\<close>\<close>



section \<open>\<open>_image_sparse_solve\<close> and \<open>_likelihood_data_given_model\<close>\<close>

text \<open>
  A name of the source that starts with an underscore is written with the prefix
  \<open>priv_\<close>. Each function returns its value together with the bundles as the in-place
  updates leave them.
\<close>

definition priv_image_sparse_solve ::
  "sparse_fit \<Rightarrow> kwargs_list \<Rightarrow> kwargs_list \<Rightarrow> kwargs_list \<Rightarrow> kwargs_list \<Rightarrow> kwargs_list
     \<Rightarrow> kwargs option
     \<Rightarrow> error + ((image \<times> image \<times> param) \<times>
                  (kwargs_list \<times> kwargs_list \<times> kwargs_list \<times> kwargs_list))" where
  "priv_image_sparse_solve self kwargs_lens kwargs_source kwargs_lens_light kwargs_ps
       kwargs_extinction kwargs_special =
     (case error_response self kwargs_lens kwargs_ps kwargs_special of
        (C_D_response, model_error) \<Rightarrow>
          (let init_ps_model = point_source self kwargs_ps kwargs_lens kwargs_special in
           case sparseSolver_solve self of
             None \<Rightarrow> Inl AttributeError
           | Some solve \<Rightarrow>
               (case solve kwargs_lens kwargs_source kwargs_lens_light kwargs_ps
                       kwargs_special init_ps_model of
                  (model, prm) \<Rightarrow>
                    (case update_sparse_kwargs self prm kwargs_lens kwargs_source
                            kwargs_lens_light kwargs_ps of
                       Inl e \<Rightarrow> Inl e
                     | Inr updated \<Rightarrow> Inr ((model, model_error, prm), updated)))))"

definition image_sparse_solve ::
  "sparse_fit \<Rightarrow> kwargs_list \<Rightarrow> kwargs_list \<Rightarrow> kwargs_list \<Rightarrow> kwargs_list \<Rightarrow> kwargs_list
     \<Rightarrow> kwargs option
     \<Rightarrow> error + ((image \<times> image \<times> param) \<times>
                  (kwargs_list \<times> kwargs_list \<times> kwargs_list \<times> kwargs_list))" where
  "image_sparse_solve self kwargs_lens kwargs_source kwargs_lens_light kwargs_ps
       kwargs_extinction kwargs_special =
     priv_image_sparse_solve self kwargs_lens kwargs_source kwargs_lens_light kwargs_ps
       kwargs_extinction kwargs_special"

definition penalty :: npfloat where
  "penalty = Finite (- (10 ^ 20))"

text \<open>
  The call of \<open>_image_sparse_solve\<close> names \<open>kwargs_lens\<close>, \<open>kwargs_source\<close>,
  \<open>kwargs_lens_light\<close> and \<open>kwargs_special\<close>; \<open>kwargs_ps\<close> and \<open>kwargs_extinction\<close>
  take their default \<open>None\<close>. The value is the log-likelihood with the three bundles
  passed on, as updated; the caller's \<open>kwargs_ps\<close> is not touched.
\<close>

definition priv_likelihood_data_given_model ::
  "sparse_fit \<Rightarrow> kwargs_list \<Rightarrow> kwargs_list \<Rightarrow> kwargs_list \<Rightarrow> kwargs_list \<Rightarrow> kwargs option
     \<Rightarrow> error + (npfloat \<times> (kwargs_list \<times> kwargs_list \<times> kwargs_list))" where
  "priv_likelihood_data_given_model self kwargs_lens kwargs_source kwargs_lens_light kwargs_ps
       kwargs_special =
     (case priv_image_sparse_solve self kwargs_lens kwargs_source kwargs_lens_light None None
             kwargs_special of
        Inl e \<Rightarrow> Inl e
      | Inr ((im_sim, model_error, prm), (kwargs_lens1, kwargs_source1, kwargs_lens_light1, _)) \<Rightarrow>
          (let logL = Data_log_likelihood self im_sim (likelihood_mask self) model_error in
           if \<not> np_isfinite logL
           then Inr (penalty, (kwargs_lens1, kwargs_source1, kwargs_lens_light1))
           else Inr (logL, (kwargs_lens1, kwargs_source1, kwargs_lens_light1))))"

definition likelihood_data_given_model ::
  "sparse_fit \<Rightarrow> kwargs_list \<Rightarrow> kwargs_list \<Rightarrow> kwargs_list \<Rightarrow> kwargs_list \<Rightarrow> kwargs option
     \<Rightarrow> error + (npfloat \<times> (kwargs_list \<times> kwargs_list \<times> kwargs_list))" where
  "likelihood_data_given_model self kwargs_lens kwargs_source kwargs_lens_light kwargs_ps
       kwargs_special =
     priv_likelihood_data_given_model self kwargs_lens kwargs_source kwargs_lens_light kwargs_ps
       kwargs_special"

section \<open>The linear solve of the point sources\<close>

text \<open>
  The loop of \<open>point_source_linear_response_matrix\<close> over \<open>range(0, num_param)\<close>:
  row \<open>i\<close> of \<open>A\<close> becomes the masked rendering of the \<open>i\<close>-th point source.
\<close>

fun response_loop ::
  "sparse_fit \<Rightarrow> array1d list \<Rightarrow> array1d list \<Rightarrow> array1d list \<Rightarrow> nat list \<Rightarrow> image
     \<Rightarrow> error + image" where
  "response_loop self ra_pos dec_pos amp [] A = Inr A"
| "response_loop self ra_pos dec_pos amp (i # is) A =
     (if length ra_pos \<le> i \<or> length dec_pos \<le> i \<or> length amp \<le> i then Inl IndexError
      else
        (let image = point_source_rendering self (ra_pos ! i) (dec_pos ! i) (amp ! i) in
         case set_row (num_data_evaluate self) (image2array_masked self image) of
           Inl e \<Rightarrow> Inl e
         | Inr row \<Rightarrow> response_loop self ra_pos dec_pos amp is (A[i := row])))"

definition point_source_linear_response_matrix ::
  "sparse_fit \<Rightarrow> kwargs_list \<Rightarrow> kwargs_list \<Rightarrow> kwargs option \<Rightarrow> error + image" where
  "point_source_linear_response_matrix self kwargs_lens kwargs_ps kwargs_special =
     (case point_source_linear_response_set self kwargs_ps kwargs_lens kwargs_special of
        (ra_pos, dec_pos, amp, num_param) \<Rightarrow>
          (let num_response = num_data_evaluate self;
               A = replicate num_param (replicate num_response (Finite 0))
           in case response_loop self ra_pos dec_pos amp [0..<num_param] A of
                Inl e \<Rightarrow> Inl e
              | Inr A1 \<Rightarrow> Inr (nan_to_num A1)))"

definition update_linear_kwargs_point_source ::
  "sparse_fit \<Rightarrow> param \<Rightarrow> kwargs_list \<Rightarrow> kwargs_list \<Rightarrow> error + (kwargs_list \<times> kwargs_list)" where
  "update_linear_kwargs_point_source self prm kwargs_lens kwargs_ps =
     (let i = 0 in
      case PointSource_update_linear self of
        None \<Rightarrow> Inl AttributeError
      | Some update_linear \<Rightarrow>
          (case update_linear prm i kwargs_ps kwargs_lens of
             (kwargs_ps1, i1) \<Rightarrow> Inr (kwargs_lens, kwargs_ps1)))"

text \<open>
  The value is the tuple returned, with the point-source bundle as the update leaves it.
\<close>

definition priv_image_linear_solve_point_sources ::
  "sparse_fit \<Rightarrow> image \<Rightarrow> kwargs_list \<Rightarrow> kwargs_list \<Rightarrow> kwargs option \<Rightarrow> bool
     \<Rightarrow> error + ((image \<times> image \<times> image option \<times> param) \<times> kwargs_list)" where
  "priv_image_linear_solve_point_sources self sparse_model kwargs_lens kwargs_ps kwargs_special
       inv_bool =
     (case point_source_linear_response_matrix self kwargs_lens kwargs_ps kwargs_special of
        Inl e \<Rightarrow> Inl e
      | Inr A \<Rightarrow>
          (case error_response self kwargs_lens kwargs_ps kwargs_special of
             (C_D_response, model_error) \<Rightarrow>
               (case np_sub_arr (data_response self) (image2array_masked self sparse_model) of
                  Inl e \<Rightarrow> Inl e
                | Inr d \<Rightarrow>
                    (case get_param_WLS self (np_T (num_data_evaluate self) A)
                            (map np_recip C_D_response) d inv_bool of
                       (prm, cov_param, wls_model) \<Rightarrow>
                         (case update_linear_kwargs_point_source self prm kwargs_lens
                                 kwargs_ps of
                            Inl e \<Rightarrow> Inl e
                          | Inr (kwargs_lens1, kwargs_ps1) \<Rightarrow>
                              Inr ((array_masked2image self wls_model, model_error,
                                    cov_param, prm), kwargs_ps1))))))"

section \<open>\<open>MultiGaussianEllipseKappa.hessian\<close>\<close>

text \<open>
  The Hessian of one Gaussian component, \<open>GaussianEllipseKappa.hessian\<close>, is a
  parameter. Coordinates are one-dimensional arrays.
\<close>

type_synonym hessian_fn =
  "array1d \<Rightarrow> array1d \<Rightarrow> npfloat \<Rightarrow> npfloat \<Rightarrow> npfloat \<Rightarrow> npfloat \<Rightarrow> npfloat \<Rightarrow> npfloat
     \<Rightarrow> error + (array1d \<times> array1d \<times> array1d \<times> array1d)"

text \<open>The loop over \<open>range(len(amp))\<close>, with the three accumulators.\<close>

fun hessian_loop ::
  "hessian_fn \<Rightarrow> array1d \<Rightarrow> array1d \<Rightarrow> array1d \<Rightarrow> array1d \<Rightarrow> npfloat \<Rightarrow> npfloat \<Rightarrow> npfloat
     \<Rightarrow> npfloat \<Rightarrow> nat list \<Rightarrow> array1d \<times> array1d \<times> array1d
     \<Rightarrow> error + (array1d \<times> array1d \<times> array1d)" where
  "hessian_loop gh x y amp sigma e1 e2 center_x center_y [] acc = Inr acc"
| "hessian_loop gh x y amp sigma e1 e2 center_x center_y (i # is) (f_xx, f_yy, f_xy) =
     (if length sigma \<le> i then Inl IndexError
      else
        (case gh x y (amp ! i) (sigma ! i) e1 e2 center_x center_y of
           Inl e \<Rightarrow> Inl e
         | Inr (f_xx_i, f_xy_i, _, f_yy_i) \<Rightarrow>
             (case np_iadd f_xx f_xx_i of
                Inl e \<Rightarrow> Inl e
              | Inr f_xx1 \<Rightarrow>
                  (case np_iadd f_yy f_yy_i of
                     Inl e \<Rightarrow> Inl e
                   | Inr f_yy1 \<Rightarrow>
                       (case np_iadd f_xy f_xy_i of
                          Inl e \<Rightarrow> Inl e
                        | Inr f_xy1 \<Rightarrow>
                            hessian_loop gh x y amp sigma e1 e2 center_x center_y is
                              (f_xx1, f_yy1, f_xy1))))))"

definition hessian ::
  "hessian_fn \<Rightarrow> array1d \<Rightarrow> array1d \<Rightarrow> array1d \<Rightarrow> array1d \<Rightarrow> npfloat \<Rightarrow> npfloat \<Rightarrow> npfloat
     \<Rightarrow> npfloat \<Rightarrow> error + (array1d \<times> array1d \<times> array1d \<times> array1d)" where
  "hessian gh x y amp sigma e1 e2 center_x center_y =
     (case hessian_loop gh x y amp sigma e1 e2 center_x center_y [0..<length amp]
             (zeros_like x, zeros_like x, zeros_like x) of
        Inl e \<Rightarrow> Inl e
      | Inr (f_xx, f_yy, f_xy) \<Rightarrow> Inr (f_xx, f_xy, f_xy, f_yy))"

section \<open>Notions used to state the properties\<close>

text \<open>The masked rendering of the \<open>i\<close>-th point source, which the loop writes into row \<open>i\<close>.\<close>

definition masked_rendering ::
  "sparse_fit \<Rightarrow> array1d list \<Rightarrow> array1d list \<Rightarrow> array1d list \<Rightarrow> nat \<Rightarrow> array1d" where
  "masked_rendering self ra_pos dec_pos amp i =
     image2array_masked self (point_source_rendering self (ra_pos ! i) (dec_pos ! i) (amp ! i))"

text \<open>
  The response set is well formed when it holds a position and an amplitude for each
  of its \<open>num_param\<close> parameters and each masked rendering has \<open>num_data_evaluate\<close>
  entries.
\<close>

definition response_set_well_formed ::
  "sparse_fit \<Rightarrow> kwargs_list \<Rightarrow> kwargs_list \<Rightarrow> kwargs option \<Rightarrow> bool" where
  "response_set_well_formed self kwargs_lens kwargs_ps kwargs_special =
     (case point_source_linear_response_set self kwargs_ps kwargs_lens kwargs_special of
        (ra_pos, dec_pos, amp, num_param) \<Rightarrow>
          num_param \<le> length ra_pos \<and> num_param \<le> length dec_pos \<and>
          num_param \<le> length amp \<and>
          list_all (\<lambda>i. length (masked_rendering self ra_pos dec_pos amp i)
                          = num_data_evaluate self) [0..<num_param])"


text \<open>
  The component Hessian answers at the coordinates \<open>x\<close>, \<open>y\<close> with arrays of the
  shape of \<open>x\<close>, whatever the amplitude and the width.
\<close>

definition x_shaped ::
  "hessian_fn \<Rightarrow> array1d \<Rightarrow> array1d \<Rightarrow> npfloat \<Rightarrow> npfloat \<Rightarrow> npfloat \<Rightarrow> npfloat \<Rightarrow> bool" where
  "x_shaped gh x y e1 e2 center_x center_y =
     (\<forall>a s. \<exists>f_xx f_xy f_yx f_yy.
        gh x y a s e1 e2 center_x center_y = Inr (f_xx, f_xy, f_yx, f_yy) \<and>
        length f_xx = length x \<and> length f_xy = length x \<and> length f_yy = length x)"

section \<open>Concrete instances\<close>

definition example_fit :: sparse_fit where
  "example_fit =
     \<lparr>Data_num_pixel = 4,
      Data_pixel_width = Finite (1 / 2),
      Data_log_likelihood = (\<lambda>model mask err. if err = [] then NaN else Finite (- 3)),
      likelihood_mask = None,
      self_subgrid_res_source = 2,
      error_response =
        (\<lambda>kwargs_lens kwargs_ps kwargs_special.
           ([Finite 2, Finite 4], case kwargs_lens of None \<Rightarrow> [] | Some l \<Rightarrow> [[Finite 1]])),
      point_source = (\<lambda>kwargs_ps kwargs_lens kwargs_special. []),
      sparseSolver_solve =
        Some (\<lambda>kwargs_lens kwargs_source kwargs_lens_light kwargs_ps kwargs_special init.
                ([[Finite 1]], [Finite 1])),
      update_linear_kwargs = (\<lambda>prm kl ks kll kps. (kl, ks, kll, kps)),
      point_source_linear_response_set =
        (\<lambda>kwargs_ps kwargs_lens kwargs_special. ([[Finite 0]], [[Finite 0]], [[Finite 1]], 1)),
      num_data_evaluate = 2,
      point_source_rendering = (\<lambda>ra dec amp. [[NaN, Finite 1]]),
      image2array_masked = concat,
      array_masked2image = (\<lambda>a. [a]),
      data_response = [Finite 5, Finite 7],
      get_param_WLS = (\<lambda>M w d inv_bool. (d, None, d)),
      PointSource_update_linear = Some (\<lambda>prm i kwargs_ps kwargs_lens. (kwargs_ps, i + length prm)),
      coordinates_evaluate = ([], []),
      LensLightModel_surface_brightness = None,
      array2image = (\<lambda>a. Inr [a])\<rparr>"


definition example_hessian :: hessian_fn where
  "example_hessian x y a s e1 e2 center_x center_y =
     Inr (map (\<lambda>v. a) x, map (\<lambda>v. s) x, map (\<lambda>v. s) x, map (\<lambda>v. a) x)"

section \<open>Properties of the constructor\<close>

lemma not_single_starlet_iff:
  "not_single_starlet ml = (\<not> (\<exists>p. ml = [p] \<and> (p = ''STARLETS'' \<or> p = ''STARLETS_GEN2'')))"
proof (cases ml)
  case Nil
  then show ?thesis by (simp add: not_single_starlet_def)
next
  case (Cons p rest)
  then show ?thesis
    by (cases rest) (auto simp add: not_single_starlet_def starlet_names_def)
qed

text \<open>
  C1. The claim is that a non-empty lens-light list together with a non-empty
  point-source list makes the constructor raise a configuration error. The chain
  \<open>if\<close>/\<open>elif\<close>/\<open>elif\<close> of the source has no branch for that case: on the input
  below the constructor returns an instance, raises nothing, prints nothing and leaves
  the attribute \<open>sparseSolver\<close> unassigned.
\<close>

theorem init_lens_light_and_point_sources_no_error:
  "init \<lparr>LensLightModel = Some [''STARLETS''],
         PointSource = Some [''LENSED_POSITION''],
         SourceModel = Some [''STARLETS''],
         psf_error_map = []\<rparr> Map.empty
   = Inr \<lparr>sparseSolver = None, subgrid_res_source = 1, printed = []\<rparr>"
  by (simp add: init_def no_lens_light_def no_point_sources_def)

text \<open>
  C3. In source-only mode (no lens light, no point sources) the constructor raises the
  \<open>ValueError\<close> of the source list exactly when that list is not one single starlet
  profile (\<open>STARLETS\<close> or \<open>STARLETS_GEN2\<close>); in source-plus-lens-light mode (lens
  light present, no point sources) it raises the \<open>ValueError\<close> of the lens-light list
  exactly when the lens-light list is not one single starlet profile.
\<close>

theorem single_starlet_required:
  "(no_lens_light s \<and> no_point_sources s \<and> SourceModel s = Some ml \<longrightarrow>
      (init s kw = Inl (ValueError source_error_msg)) =
      (\<not> (\<exists>p. ml = [p] \<and> (p = ''STARLETS'' \<or> p = ''STARLETS_GEN2''))))
   \<and>
   (\<not> no_lens_light s \<and> no_point_sources s \<and> LensLightModel s = Some ll \<longrightarrow>
      (init s kw = Inl (ValueError lens_light_error_msg)) =
      (\<not> (\<exists>p. ll = [p] \<and> (p = ''STARLETS'' \<or> p = ''STARLETS_GEN2''))))"
proof (intro conjI impI)
  assume h: "no_lens_light s \<and> no_point_sources s \<and> SourceModel s = Some ml"
  then have "(init s kw = Inl (ValueError source_error_msg)) = not_single_starlet ml"
    by (simp add: init_def Let_def)
  then show "(init s kw = Inl (ValueError source_error_msg)) =
      (\<not> (\<exists>p. ml = [p] \<and> (p = ''STARLETS'' \<or> p = ''STARLETS_GEN2'')))"
    by (simp only: not_single_starlet_iff)
next
  assume h: "\<not> no_lens_light s \<and> no_point_sources s \<and> LensLightModel s = Some ll"
  then have "(init s kw = Inl (ValueError lens_light_error_msg)) = not_single_starlet ll"
    by (simp add: init_def Let_def)
  then show "(init s kw = Inl (ValueError lens_light_error_msg)) =
      (\<not> (\<exists>p. ll = [p] \<and> (p = ''STARLETS'' \<or> p = ''STARLETS_GEN2'')))"
    by (simp only: not_single_starlet_iff)
qed

theorem single_starlet_required_witness:
  "(no_lens_light \<lparr>LensLightModel = None, PointSource = None,
                    SourceModel = Some [''SERSIC''], psf_error_map = []\<rparr>
    \<and> no_point_sources \<lparr>LensLightModel = None, PointSource = None,
                    SourceModel = Some [''SERSIC''], psf_error_map = []\<rparr>
    \<and> init \<lparr>LensLightModel = None, PointSource = None,
              SourceModel = Some [''SERSIC''], psf_error_map = []\<rparr> Map.empty
        = Inl (ValueError source_error_msg))
   \<and>
   (\<not> no_lens_light \<lparr>LensLightModel = Some [''STARLETS'', ''SERSIC''], PointSource = Some [],
                    SourceModel = Some [''STARLETS''], psf_error_map = []\<rparr>
    \<and> no_point_sources \<lparr>LensLightModel = Some [''STARLETS'', ''SERSIC''], PointSource = Some [],
                    SourceModel = Some [''STARLETS''], psf_error_map = []\<rparr>
    \<and> init \<lparr>LensLightModel = Some [''STARLETS'', ''SERSIC''], PointSource = Some [],
              SourceModel = Some [''STARLETS''], psf_error_map = []\<rparr> Map.empty
        = Inl (ValueError lens_light_error_msg))"
  using single_starlet_required
          [of "\<lparr>LensLightModel = None, PointSource = None,
                SourceModel = Some [''SERSIC''], psf_error_map = []\<rparr>"
              "[''SERSIC'']" Map.empty "[]"]
        single_starlet_required
          [of "\<lparr>LensLightModel = Some [''STARLETS'', ''SERSIC''], PointSource = Some [],
                SourceModel = Some [''STARLETS''], psf_error_map = []\<rparr>"
              "[]" Map.empty "[''STARLETS'', ''SERSIC'']"]
  by (simp add: no_lens_light_def no_point_sources_def)

text \<open>
  C8. In point-source mode (point sources present, no lens light) the constructor goes
  on, instantiates the point-source solver, and prints the warning about the PSF error
  map when some entry of the map differs from zero; when every entry is zero it prints
  nothing. The combination is met where the PSF is supplied, in the constructor.
\<close>

theorem psf_error_map_warning_point_source_mode:
  "no_lens_light s \<Longrightarrow> \<not> no_point_sources s \<Longrightarrow>
   \<exists>r. init s kw = Inr r \<and> sparseSolver r = Some SparseSolverSourcePS \<and>
       ((\<exists>row \<in> set (psf_error_map s). \<exists>v \<in> set row. v \<noteq> Finite 0)
          \<longrightarrow> printed r = [psf_error_map_warning]) \<and>
       ((\<forall>row \<in> set (psf_error_map s). \<forall>v \<in> set row. v = Finite 0)
          \<longrightarrow> printed r = [])"
  by (auto simp add: init_def Let_def np_all_zero_def list_all_iff)

theorem psf_error_map_warning_point_source_mode_witness:
  "no_lens_light \<lparr>LensLightModel = Some [], PointSource = Some [''LENSED_POSITION''],
                   SourceModel = Some [''STARLETS''],
                   psf_error_map = [[Finite 0, Finite (1/2)]]\<rparr>
   \<and> \<not> no_point_sources \<lparr>LensLightModel = Some [], PointSource = Some [''LENSED_POSITION''],
                   SourceModel = Some [''STARLETS''],
                   psf_error_map = [[Finite 0, Finite (1/2)]]\<rparr>
   \<and> (\<exists>r. init \<lparr>LensLightModel = Some [], PointSource = Some [''LENSED_POSITION''],
                   SourceModel = Some [''STARLETS''],
                   psf_error_map = [[Finite 0, Finite (1/2)]]\<rparr> Map.empty = Inr r
          \<and> sparseSolver r = Some SparseSolverSourcePS
          \<and> printed r = [psf_error_map_warning])"
  using psf_error_map_warning_point_source_mode
          [of "\<lparr>LensLightModel = Some [], PointSource = Some [''LENSED_POSITION''],
                SourceModel = Some [''STARLETS''],
                psf_error_map = [[Finite 0, Finite (1/2)]]\<rparr>" Map.empty]
  by (simp add: no_lens_light_def no_point_sources_def)

section \<open>Properties of \<open>update_fixed_param\<close>\<close>

lemma upd4_idem:
  "(m(a \<mapsto> x, b \<mapsto> y, c \<mapsto> z, d \<mapsto> w))(a \<mapsto> x, b \<mapsto> y, c \<mapsto> z, d \<mapsto> w)
   = m(a \<mapsto> x, b \<mapsto> y, c \<mapsto> z, d \<mapsto> w)"
  by (rule ext) simp

text \<open>
  C9. A call on a source bundle with a first dictionary returns. Whenever a call
  returns, a second call on the bundles it returned gives the same bundles again; the
  first source dictionary then holds \<open>n_pixels = num_pixel * factor\<^sup>2\<close>,
  \<open>scale = pixel_width / factor\<close> and the center \<open>(0, 0)\<close>, and when the lens-light
  bundle has a first dictionary, that holds \<open>n_pixels = num_pixel\<close>,
  \<open>scale = pixel_width\<close> and the center \<open>(0, 0)\<close>, the rest of both bundles being
  as before.
\<close>

theorem update_fixed_param_idempotent:
  "(\<exists>r. update_fixed_param self (Some (k # rest0)) kll0 = Inr r) \<and>
   (update_fixed_param self ks kll = Inr (ks', kll') \<longrightarrow>
      update_fixed_param self ks' kll' = Inr (ks', kll') \<and>
      (\<exists>k0 k1 rest. ks = Some (k0 # rest) \<and> ks' = Some (k1 # rest) \<and>
         k1 ''n_pixels'' =
           Some (PyInt (Data_num_pixel self * (self_subgrid_res_source self)\<^sup>2)) \<and>
         k1 ''scale'' =
           Some (PyFloat (np_div_int (Data_pixel_width self) (self_subgrid_res_source self))) \<and>
         k1 ''center_x'' = Some (PyInt 0) \<and> k1 ''center_y'' = Some (PyInt 0)) \<and>
      (\<forall>l lrest. kll = Some (l # lrest) \<longrightarrow>
         (\<exists>l1. kll' = Some (l1 # lrest) \<and>
            l1 ''n_pixels'' = Some (PyInt (Data_num_pixel self)) \<and>
            l1 ''scale'' = Some (PyFloat (Data_pixel_width self)) \<and>
            l1 ''center_x'' = Some (PyInt 0) \<and> l1 ''center_y'' = Some (PyInt 0))))"
  unfolding update_fixed_param_def
  by (auto split: option.splits list.splits simp add: upd4_idem)


theorem update_fixed_param_idempotent_witness:
  "update_fixed_param example_fit (Some [Map.empty]) (Some [Map.empty])
     = Inr (Some [[''n_pixels'' \<mapsto> PyInt 16, ''scale'' \<mapsto> PyFloat (Finite (1 / 4)),
                   ''center_x'' \<mapsto> PyInt 0, ''center_y'' \<mapsto> PyInt 0]],
            Some [[''n_pixels'' \<mapsto> PyInt 4, ''scale'' \<mapsto> PyFloat (Finite (1 / 2)),
                   ''center_x'' \<mapsto> PyInt 0, ''center_y'' \<mapsto> PyInt 0]])
   \<and> update_fixed_param example_fit
       (Some [[''n_pixels'' \<mapsto> PyInt 16, ''scale'' \<mapsto> PyFloat (Finite (1 / 4)),
               ''center_x'' \<mapsto> PyInt 0, ''center_y'' \<mapsto> PyInt 0]])
       (Some [[''n_pixels'' \<mapsto> PyInt 4, ''scale'' \<mapsto> PyFloat (Finite (1 / 2)),
               ''center_x'' \<mapsto> PyInt 0, ''center_y'' \<mapsto> PyInt 0]])
     = Inr (Some [[''n_pixels'' \<mapsto> PyInt 16, ''scale'' \<mapsto> PyFloat (Finite (1 / 4)),
                   ''center_x'' \<mapsto> PyInt 0, ''center_y'' \<mapsto> PyInt 0]],
            Some [[''n_pixels'' \<mapsto> PyInt 4, ''scale'' \<mapsto> PyFloat (Finite (1 / 2)),
                   ''center_x'' \<mapsto> PyInt 0, ''center_y'' \<mapsto> PyInt 0]])"
proof -
  have first:
    "update_fixed_param example_fit (Some [Map.empty]) (Some [Map.empty])
     = Inr (Some [[''n_pixels'' \<mapsto> PyInt 16, ''scale'' \<mapsto> PyFloat (Finite (1 / 4)),
                   ''center_x'' \<mapsto> PyInt 0, ''center_y'' \<mapsto> PyInt 0]],
            Some [[''n_pixels'' \<mapsto> PyInt 4, ''scale'' \<mapsto> PyFloat (Finite (1 / 2)),
                   ''center_x'' \<mapsto> PyInt 0, ''center_y'' \<mapsto> PyInt 0]])"
    by (simp add: update_fixed_param_def example_fit_def)
  from first
    update_fixed_param_idempotent
      [of example_fit Map.empty "[]" "None" "Some [Map.empty]" "Some [Map.empty]"
          "Some [[''n_pixels'' \<mapsto> PyInt 16, ''scale'' \<mapsto> PyFloat (Finite (1 / 4)),
                   ''center_x'' \<mapsto> PyInt 0, ''center_y'' \<mapsto> PyInt 0]]"
          "Some [[''n_pixels'' \<mapsto> PyInt 4, ''scale'' \<mapsto> PyFloat (Finite (1 / 2)),
                   ''center_x'' \<mapsto> PyInt 0, ''center_y'' \<mapsto> PyInt 0]]"]
  show ?thesis by blast
qed

section \<open>Properties of \<open>hessian\<close>\<close>

lemma np_iadd_same_length:
  "length b = length a \<Longrightarrow> \<exists>c. np_iadd a b = Inr c \<and> length c = length a"
  by (simp add: np_iadd_def)

lemma hessian_loop_returns:
  assumes "x_shaped gh x y e1 e2 center_x center_y"
  shows "\<forall>i \<in> set is. i < length sigma \<Longrightarrow>
         length f_xx = length x \<Longrightarrow> length f_yy = length x \<Longrightarrow> length f_xy = length x \<Longrightarrow>
         \<exists>r. hessian_loop gh x y amp sigma e1 e2 center_x center_y is (f_xx, f_yy, f_xy) = Inr r"
proof (induction "is" arbitrary: f_xx f_yy f_xy)
  case Nil
  then show ?case by simp
next
  case (Cons i "is")
  from assms obtain g_xx g_xy g_yx g_yy where
    g: "gh x y (amp ! i) (sigma ! i) e1 e2 center_x center_y = Inr (g_xx, g_xy, g_yx, g_yy)"
       "length g_xx = length x" "length g_xy = length x" "length g_yy = length x"
    unfolding x_shaped_def by blast
  obtain a where a: "np_iadd f_xx g_xx = Inr a" "length a = length x"
    using np_iadd_same_length[of g_xx f_xx] g Cons.prems by auto
  obtain b where b: "np_iadd f_yy g_yy = Inr b" "length b = length x"
    using np_iadd_same_length[of g_yy f_yy] g Cons.prems by auto
  obtain c where c: "np_iadd f_xy g_xy = Inr c" "length c = length x"
    using np_iadd_same_length[of g_xy f_xy] g Cons.prems by auto
  have "\<exists>r. hessian_loop gh x y amp sigma e1 e2 center_x center_y is (a, b, c) = Inr r"
    using Cons.IH[of a b c] Cons.prems a b c by simp
  moreover have "i < length sigma" using Cons.prems by simp
  ultimately show ?case using g a b c by simp
qed

text \<open>
  C10. Whenever \<open>hessian\<close> returns, the second and the third component of the tuple
  are equal: both are the accumulator \<open>f_xy\<close>. It returns whenever \<open>sigma\<close> is as
  long as \<open>amp\<close> and the component Hessian answers with arrays of the shape of \<open>x\<close>.
\<close>

theorem hessian_symmetric:
  "(\<forall>f_xx f_xy f_yx f_yy.
      hessian gh x y amp sigma e1 e2 center_x center_y = Inr (f_xx, f_xy, f_yx, f_yy)
      \<longrightarrow> f_xy = f_yx)
   \<and> (length amp \<le> length sigma \<and> x_shaped gh x y e1 e2 center_x center_y
      \<longrightarrow> (\<exists>r. hessian gh x y amp sigma e1 e2 center_x center_y = Inr r))"
proof (intro conjI allI impI)
  fix f_xx f_xy f_yx f_yy
  assume "hessian gh x y amp sigma e1 e2 center_x center_y = Inr (f_xx, f_xy, f_yx, f_yy)"
  then show "f_xy = f_yx"
    by (auto simp add: hessian_def split: sum.splits prod.splits)
next
  assume h: "length amp \<le> length sigma \<and> x_shaped gh x y e1 e2 center_x center_y"
  then have "\<forall>i \<in> set [0..<length amp]. i < length sigma" by auto
  with h obtain r where
    "hessian_loop gh x y amp sigma e1 e2 center_x center_y [0..<length amp]
       (zeros_like x, zeros_like x, zeros_like x) = Inr r"
    using hessian_loop_returns[of gh x y e1 e2 center_x center_y "[0..<length amp]" sigma
            "zeros_like x" "zeros_like x" "zeros_like x" amp]
    by (auto simp add: zeros_like_def)
  then show "\<exists>r. hessian gh x y amp sigma e1 e2 center_x center_y = Inr r"
    by (cases r) (simp add: hessian_def)
qed

theorem hessian_symmetric_witness:
  "length [Finite 1, Finite 2] \<le> length [Finite 3, Finite 4]
   \<and> x_shaped example_hessian [Finite 1, Finite 2] [Finite 0, Finite 0]
       (Finite 0) (Finite 0) (Finite 0) (Finite 0)
   \<and> (\<exists>f_xx f_xy f_yy.
        hessian example_hessian [Finite 1, Finite 2] [Finite 0, Finite 0]
          [Finite 1, Finite 2] [Finite 3, Finite 4] (Finite 0) (Finite 0) (Finite 0) (Finite 0)
        = Inr (f_xx, f_xy, f_xy, f_yy))"
proof -
  have sh: "x_shaped example_hessian [Finite 1, Finite 2] [Finite 0, Finite 0]
       (Finite 0) (Finite 0) (Finite 0) (Finite 0)"
    by (simp add: x_shaped_def example_hessian_def)
  have len: "length [Finite 1, Finite 2] \<le> length [Finite 3, Finite 4]" by simp
  note sym = hessian_symmetric
      [of example_hessian "[Finite 1, Finite 2]" "[Finite 0, Finite 0]"
          "[Finite 1, Finite 2]" "[Finite 3, Finite 4]" "Finite 0" "Finite 0" "Finite 0" "Finite 0"]
  from sym sh len obtain r where
    r: "hessian example_hessian [Finite 1, Finite 2] [Finite 0, Finite 0]
          [Finite 1, Finite 2] [Finite 3, Finite 4] (Finite 0) (Finite 0) (Finite 0) (Finite 0)
        = Inr r"
    by blast
  obtain a b c d where abcd: "r = (a, b, c, d)" by (cases r) auto
  from sym r abcd have "b = c" by blast
  with r abcd sh len show ?thesis by blast
qed

section \<open>Properties of \<open>lens_surface_brightness\<close>\<close>



section \<open>Properties of the likelihood\<close>

text \<open>
  C5. Two calls of \<open>likelihood_data_given_model\<close> on the same instance that agree on
  \<open>kwargs_lens\<close>, \<open>kwargs_source\<close>, \<open>kwargs_lens_light\<close> and \<open>kwargs_special\<close>
  give the same result, whatever their \<open>kwargs_ps\<close>: the argument is not passed on to
  \<open>_image_sparse_solve\<close>.
\<close>

theorem likelihood_ignores_kwargs_ps:
  "likelihood_data_given_model self kwargs_lens kwargs_source kwargs_lens_light kwargs_ps
     kwargs_special
   = likelihood_data_given_model self kwargs_lens kwargs_source kwargs_lens_light kwargs_ps'
     kwargs_special"
  by (simp add: likelihood_data_given_model_def priv_likelihood_data_given_model_def)

text \<open>
  C2. When the sparse forward model returns (it is called with \<open>kwargs_ps = None\<close>) and
  the log-likelihood of the data for its image is not finite, the function returns the
  constant \<open>-1e20\<close> and raises nothing; when the log-likelihood is finite, it is
  returned as it is.
\<close>

theorem likelihood_non_finite_penalty:
  assumes "priv_image_sparse_solve self kwargs_lens kwargs_source kwargs_lens_light None None
             kwargs_special
           = Inr ((im_sim, model_error, prm), (kl1, ks1, kll1, kps1))"
  shows "(\<not> np_isfinite (Data_log_likelihood self im_sim (likelihood_mask self) model_error)
            \<longrightarrow> likelihood_data_given_model self kwargs_lens kwargs_source kwargs_lens_light
                  kwargs_ps kwargs_special
                = Inr (Finite (- (10 ^ 20)), (kl1, ks1, kll1)))
       \<and> (np_isfinite (Data_log_likelihood self im_sim (likelihood_mask self) model_error)
            \<longrightarrow> likelihood_data_given_model self kwargs_lens kwargs_source kwargs_lens_light
                  kwargs_ps kwargs_special
                = Inr (Data_log_likelihood self im_sim (likelihood_mask self) model_error,
                       (kl1, ks1, kll1)))"
  using assms
  by (simp add: likelihood_data_given_model_def priv_likelihood_data_given_model_def
        penalty_def Let_def)


theorem likelihood_non_finite_penalty_witness:
  "priv_image_sparse_solve example_fit None (Some [Map.empty]) None None None None
     = Inr (([[Finite 1]], [], [Finite 1]),
            (None,
             Some [[''n_pixels'' \<mapsto> PyInt 16, ''scale'' \<mapsto> PyFloat (Finite (1 / 4)),
                    ''center_x'' \<mapsto> PyInt 0, ''center_y'' \<mapsto> PyInt 0]],
             None, None))
   \<and> \<not> np_isfinite (Data_log_likelihood example_fit [[Finite 1]]
                       (likelihood_mask example_fit) [])
   \<and> likelihood_data_given_model example_fit None (Some [Map.empty]) None (Some []) None
     = Inr (Finite (- (10 ^ 20)),
            (None,
             Some [[''n_pixels'' \<mapsto> PyInt 16, ''scale'' \<mapsto> PyFloat (Finite (1 / 4)),
                    ''center_x'' \<mapsto> PyInt 0, ''center_y'' \<mapsto> PyInt 0]],
             None))
   \<and> priv_image_sparse_solve example_fit (Some []) (Some [Map.empty]) None None None None
     = Inr (([[Finite 1]], [[Finite 1]], [Finite 1]),
            (Some [],
             Some [[''n_pixels'' \<mapsto> PyInt 16, ''scale'' \<mapsto> PyFloat (Finite (1 / 4)),
                    ''center_x'' \<mapsto> PyInt 0, ''center_y'' \<mapsto> PyInt 0]],
             None, None))
   \<and> np_isfinite (Data_log_likelihood example_fit [[Finite 1]]
                     (likelihood_mask example_fit) [[Finite 1]])
   \<and> likelihood_data_given_model example_fit (Some []) (Some [Map.empty]) None (Some []) None
     = Inr (Finite (- 3),
            (Some [],
             Some [[''n_pixels'' \<mapsto> PyInt 16, ''scale'' \<mapsto> PyFloat (Finite (1 / 4)),
                    ''center_x'' \<mapsto> PyInt 0, ''center_y'' \<mapsto> PyInt 0]],
             None))"
proof -
  have run1:
    "priv_image_sparse_solve example_fit None (Some [Map.empty]) None None None None
     = Inr (([[Finite 1]], [], [Finite 1]),
            (None,
             Some [[''n_pixels'' \<mapsto> PyInt 16, ''scale'' \<mapsto> PyFloat (Finite (1 / 4)),
                    ''center_x'' \<mapsto> PyInt 0, ''center_y'' \<mapsto> PyInt 0]],
             None, None))"
    by (simp add: priv_image_sparse_solve_def update_sparse_kwargs_def update_fixed_param_def
          example_fit_def)
  have run2:
    "priv_image_sparse_solve example_fit (Some []) (Some [Map.empty]) None None None None
     = Inr (([[Finite 1]], [[Finite 1]], [Finite 1]),
            (Some [],
             Some [[''n_pixels'' \<mapsto> PyInt 16, ''scale'' \<mapsto> PyFloat (Finite (1 / 4)),
                    ''center_x'' \<mapsto> PyInt 0, ''center_y'' \<mapsto> PyInt 0]],
             None, None))"
    by (simp add: priv_image_sparse_solve_def update_sparse_kwargs_def update_fixed_param_def
          example_fit_def)
  have nonfinite: "\<not> np_isfinite (Data_log_likelihood example_fit [[Finite 1]]
                       (likelihood_mask example_fit) [])"
    by (simp add: example_fit_def)
  have finite: "np_isfinite (Data_log_likelihood example_fit [[Finite 1]]
                     (likelihood_mask example_fit) [[Finite 1]])"
    by (simp add: example_fit_def)
  have logl: "Data_log_likelihood example_fit [[Finite 1]]
                     (likelihood_mask example_fit) [[Finite 1]] = Finite (- 3)"
    by (simp add: example_fit_def)
  from likelihood_non_finite_penalty [OF run1, of "Some []"]
       likelihood_non_finite_penalty [OF run2, of "Some []"]
       run1 run2 nonfinite finite logl
  show ?thesis by simp
qed

section \<open>Properties of the point-source response matrix\<close>

lemma nan_to_num_entry_not_nan:
  "nan_to_num_entry v \<noteq> NaN" "NaN \<noteq> nan_to_num_entry v"
  by (cases v; simp)+

lemma nan_to_num_no_nan: "row \<in> set (nan_to_num A) \<Longrightarrow> NaN \<notin> set row"
  by (auto simp add: nan_to_num_def nan_to_num_entry_not_nan)

lemma response_loop_rows:
  "response_loop self ra_pos dec_pos amp is A = Inr A1 \<Longrightarrow>
   length A1 = length A \<and>
   (\<forall>i < length A.
      (i \<in> set is \<longrightarrow>
         set_row (num_data_evaluate self) (masked_rendering self ra_pos dec_pos amp i)
           = Inr (A1 ! i)) \<and>
      (i \<notin> set is \<longrightarrow> A1 ! i = A ! i))"
proof (induction "is" arbitrary: A)
  case Nil
  then show ?case by simp
next
  case (Cons a "is")
  from Cons.prems obtain row where
    row: "set_row (num_data_evaluate self) (masked_rendering self ra_pos dec_pos amp a) = Inr row"
    and rest: "response_loop self ra_pos dec_pos amp is (A[a := row]) = Inr A1"
    by (auto simp add: masked_rendering_def Let_def split: if_splits sum.splits)
  from Cons.IH[OF rest] have
    len: "length A1 = length A" and
    ih: "\<And>i. i < length A \<Longrightarrow>
      (i \<in> set is \<longrightarrow>
         set_row (num_data_evaluate self) (masked_rendering self ra_pos dec_pos amp i)
           = Inr (A1 ! i)) \<and>
      (i \<notin> set is \<longrightarrow> A1 ! i = (A[a := row]) ! i)"
    by auto
  show ?case
  proof (intro conjI allI impI)
    show "length A1 = length A" by (rule len)
  next
    fix i assume i: "i < length A" and mem: "i \<in> set (a # is)"
    show "set_row (num_data_evaluate self) (masked_rendering self ra_pos dec_pos amp i)
            = Inr (A1 ! i)"
    proof (cases "i \<in> set is")
      case True
      with ih[OF i] show ?thesis by simp
    next
      case False
      with mem have "i = a" by simp
      with False ih[OF i] i row show ?thesis by simp
    qed
  next
    fix i assume i: "i < length A" and nmem: "i \<notin> set (a # is)"
    with ih[OF i] show "A1 ! i = A ! i" by simp
  qed
qed

lemma response_loop_returns:
  "\<forall>i \<in> set is. i < length ra_pos \<and> i < length dec_pos \<and> i < length amp \<and>
      length (masked_rendering self ra_pos dec_pos amp i) = num_data_evaluate self \<Longrightarrow>
   \<exists>A1. response_loop self ra_pos dec_pos amp is A = Inr A1"
  by (induction "is" arbitrary: A) (simp_all add: set_row_def masked_rendering_def Let_def)

lemma response_matrix_entry:
  assumes ret: "point_source_linear_response_matrix self kwargs_lens kwargs_ps kwargs_special = Inr M"
    and rs: "point_source_linear_response_set self kwargs_ps kwargs_lens kwargs_special
              = (ra_pos, dec_pos, amp, num_param)"
    and i: "i < num_param" and j: "j < num_data_evaluate self"
    and len: "length (masked_rendering self ra_pos dec_pos amp i) = num_data_evaluate self"
  shows "M ! i ! j = nan_to_num_entry (masked_rendering self ra_pos dec_pos amp i ! j)"
proof -
  from ret rs obtain A1 where
    loop: "response_loop self ra_pos dec_pos amp [0..<num_param]
             (replicate num_param (replicate (num_data_evaluate self) (Finite 0))) = Inr A1"
    and M: "M = nan_to_num A1"
    by (auto simp add: point_source_linear_response_matrix_def Let_def split: sum.splits)
  from response_loop_rows[OF loop] i have
    lenA: "length A1 = num_param" and
    rowi: "set_row (num_data_evaluate self) (masked_rendering self ra_pos dec_pos amp i)
             = Inr (A1 ! i)"
    by auto
  from rowi len have eq: "A1 ! i = masked_rendering self ra_pos dec_pos amp i"
    by (simp add: set_row_def)
  from M lenA i have "M ! i = map nan_to_num_entry (A1 ! i)"
    by (simp add: nan_to_num_def)
  with eq len j show ?thesis by simp
qed

text \<open>
  C7. A matrix returned by \<open>point_source_linear_response_matrix\<close> has no \<open>NaN\<close>
  entry, and where the masked rendering of point source \<open>i\<close> is \<open>NaN\<close> at pixel \<open>j\<close>
  the matrix holds zero at row \<open>i\<close>, column \<open>j\<close>. The function returns on every
  well-formed response set.
\<close>

theorem response_matrix_no_nan:
  "(\<forall>M. point_source_linear_response_matrix self kwargs_lens kwargs_ps kwargs_special = Inr M
      \<longrightarrow> (\<forall>row \<in> set M. NaN \<notin> set row) \<and>
          (\<forall>ra_pos dec_pos amp num_param i j.
             point_source_linear_response_set self kwargs_ps kwargs_lens kwargs_special
               = (ra_pos, dec_pos, amp, num_param) \<and>
             i < num_param \<and> j < num_data_evaluate self \<and>
             length (masked_rendering self ra_pos dec_pos amp i) = num_data_evaluate self \<and>
             masked_rendering self ra_pos dec_pos amp i ! j = NaN
             \<longrightarrow> M ! i ! j = Finite 0))
   \<and> (response_set_well_formed self kwargs_lens kwargs_ps kwargs_special
      \<longrightarrow> (\<exists>M. point_source_linear_response_matrix self kwargs_lens kwargs_ps kwargs_special
                = Inr M))"
proof (intro conjI allI impI ballI)
  fix M row
  assume "point_source_linear_response_matrix self kwargs_lens kwargs_ps kwargs_special = Inr M"
    and "row \<in> set M"
  then show "NaN \<notin> set row"
    by (auto simp add: point_source_linear_response_matrix_def Let_def nan_to_num_no_nan
          split: sum.splits prod.splits)
next
  fix M ra_pos dec_pos amp num_param i j
  assume ret: "point_source_linear_response_matrix self kwargs_lens kwargs_ps kwargs_special = Inr M"
    and h: "point_source_linear_response_set self kwargs_ps kwargs_lens kwargs_special
               = (ra_pos, dec_pos, amp, num_param) \<and>
             i < num_param \<and> j < num_data_evaluate self \<and>
             length (masked_rendering self ra_pos dec_pos amp i) = num_data_evaluate self \<and>
             masked_rendering self ra_pos dec_pos amp i ! j = NaN"
  then have "M ! i ! j = nan_to_num_entry (masked_rendering self ra_pos dec_pos amp i ! j)"
    using response_matrix_entry[OF ret, of ra_pos dec_pos amp num_param i j] by blast
  with h show "M ! i ! j = Finite 0" by simp
next
  assume wf: "response_set_well_formed self kwargs_lens kwargs_ps kwargs_special"
  obtain ra_pos dec_pos amp num_param where
    rs: "point_source_linear_response_set self kwargs_ps kwargs_lens kwargs_special
           = (ra_pos, dec_pos, amp, num_param)"
    by (cases "point_source_linear_response_set self kwargs_ps kwargs_lens kwargs_special") auto
  from wf rs have
    "\<forall>i \<in> set [0..<num_param]. i < length ra_pos \<and> i < length dec_pos \<and> i < length amp \<and>
        length (masked_rendering self ra_pos dec_pos amp i) = num_data_evaluate self"
    by (auto simp add: response_set_well_formed_def list_all_iff)
  from response_loop_returns[OF this] obtain A1 where
    "response_loop self ra_pos dec_pos amp [0..<num_param]
       (replicate num_param (replicate (num_data_evaluate self) (Finite 0))) = Inr A1"
    by blast
  with rs show "\<exists>M. point_source_linear_response_matrix self kwargs_lens kwargs_ps kwargs_special
                = Inr M"
    by (simp add: point_source_linear_response_matrix_def Let_def)
qed


theorem response_matrix_no_nan_witness:
  "response_set_well_formed example_fit None None None
   \<and> point_source_linear_response_matrix example_fit None None None
       = Inr [[Finite 0, Finite 1]]
   \<and> masked_rendering example_fit [[Finite 0]] [[Finite 0]] [[Finite 1]] 0 ! 0 = NaN
   \<and> (\<exists>M. point_source_linear_response_matrix example_fit None None None = Inr M
          \<and> list_all (\<lambda>row. NaN \<notin> set row) M \<and> M ! 0 ! 0 = Finite 0)"
proof -
  have wf: "response_set_well_formed example_fit None None None"
    by (simp add: response_set_well_formed_def example_fit_def masked_rendering_def)
  have rs: "point_source_linear_response_set example_fit None None None
              = ([[Finite 0]], [[Finite 0]], [[Finite 1]], 1)"
    by (simp add: example_fit_def)
  have n: "num_data_evaluate example_fit = 2"
    by (simp add: example_fit_def)
  have mr: "masked_rendering example_fit [[Finite 0]] [[Finite 0]] [[Finite 1]] 0
              = [NaN, Finite 1]"
    by (simp add: example_fit_def masked_rendering_def)
  have row: "image2array_masked example_fit
               (point_source_rendering example_fit [Finite 0] [Finite 0] [Finite 1])
             = [NaN, Finite 1]"
    by (simp add: example_fit_def)
  have ev: "point_source_linear_response_matrix example_fit None None None
              = Inr [[Finite 0, Finite 1]]"
    by (simp add: point_source_linear_response_matrix_def rs n Let_def set_row_def
          nan_to_num_def row)
  note main = response_matrix_no_nan [of example_fit None None None]
  from main wf obtain M where
    M: "point_source_linear_response_matrix example_fit None None None = Inr M"
    by blast
  from main M have nonan: "\<forall>row \<in> set M. NaN \<notin> set row" by blast
  from main M have
    "point_source_linear_response_set example_fit None None None
        = ([[Finite 0]], [[Finite 0]], [[Finite 1]], 1) \<and>
     (0::nat) < 1 \<and> (0::nat) < num_data_evaluate example_fit \<and>
     length (masked_rendering example_fit [[Finite 0]] [[Finite 0]] [[Finite 1]] 0)
        = num_data_evaluate example_fit \<and>
     masked_rendering example_fit [[Finite 0]] [[Finite 0]] [[Finite 1]] 0 ! 0 = NaN
     \<longrightarrow> M ! 0 ! 0 = Finite 0"
    by blast
  with rs n mr have zero: "M ! 0 ! 0 = Finite 0" by simp
  from wf ev mr M nonan zero show ?thesis
    by (auto simp add: list_all_iff)
qed

section \<open>Properties of the linear solve of the point sources\<close>

text \<open>
  C6. When \<open>_image_linear_solve_point_sources\<close> returns and the masked sparse model has
  the length of the data response, the weighted-least-squares solver was called on the
  transposed response matrix, the weights \<open>1 / C_D_response\<close> and, as data vector, the
  data response minus the masked sparse model, entry by entry; the amplitudes it
  returned are the parameters returned, the model is its model brought back to an
  image, and the point-source bundle is the one \<open>PointSource.update_linear\<close> made from
  those amplitudes, starting at index 0.
\<close>

theorem point_source_solve_on_residual:
  assumes "priv_image_linear_solve_point_sources self sparse_model kwargs_lens kwargs_ps
             kwargs_special inv_bool
           = Inr ((model, model_error, cov_param, prm), kwargs_ps1)"
    and "length (image2array_masked self sparse_model) = length (data_response self)"
  shows "\<exists>A wls_model update_linear.
           point_source_linear_response_matrix self kwargs_lens kwargs_ps kwargs_special = Inr A \<and>
           get_param_WLS self (np_T (num_data_evaluate self) A)
             (map np_recip (fst (error_response self kwargs_lens kwargs_ps kwargs_special)))
             (map2 np_sub (data_response self) (image2array_masked self sparse_model))
             inv_bool
             = (prm, cov_param, wls_model) \<and>
           model = array_masked2image self wls_model \<and>
           model_error = snd (error_response self kwargs_lens kwargs_ps kwargs_special) \<and>
           PointSource_update_linear self = Some update_linear \<and>
           kwargs_ps1 = fst (update_linear prm 0 kwargs_ps kwargs_lens)"
  using assms
  unfolding priv_image_linear_solve_point_sources_def update_linear_kwargs_point_source_def
    np_sub_arr_def Let_def
  by (auto split: sum.splits prod.splits option.splits if_splits)

theorem point_source_solve_on_residual_witness:
  "priv_image_linear_solve_point_sources example_fit [[Finite 1, Finite 2]] None (Some []) None
     False
     = Inr (([[Finite 4, Finite 5]], [], None, [Finite 4, Finite 5]), Some [])
   \<and> length (image2array_masked example_fit [[Finite 1, Finite 2]])
       = length (data_response example_fit)
   \<and> (\<exists>A wls_model.
         point_source_linear_response_matrix example_fit None (Some []) None = Inr A \<and>
         get_param_WLS example_fit (np_T (num_data_evaluate example_fit) A)
           (map np_recip (fst (error_response example_fit None (Some []) None)))
           (map2 np_sub (data_response example_fit)
              (image2array_masked example_fit [[Finite 1, Finite 2]]))
           False
           = ([Finite 4, Finite 5], None, wls_model))"
proof -
  have rs: "point_source_linear_response_set example_fit (Some []) None None
              = ([[Finite 0]], [[Finite 0]], [[Finite 1]], 1)"
    by (simp add: example_fit_def)
  have n: "num_data_evaluate example_fit = 2"
    by (simp add: example_fit_def)
  have mr: "image2array_masked example_fit
              (point_source_rendering example_fit [Finite 0] [Finite 0] [Finite 1])
              = [NaN, Finite 1]"
    by (simp add: example_fit_def)
  have A: "point_source_linear_response_matrix example_fit None (Some []) None
              = Inr [[Finite 0, Finite 1]]"
    by (simp add: point_source_linear_response_matrix_def rs n Let_def set_row_def
          nan_to_num_def mr)
  have d: "np_sub_arr (data_response example_fit)
             (image2array_masked example_fit [[Finite 1, Finite 2]])
           = Inr [Finite 4, Finite 5]"
    by (simp add: np_sub_arr_def np_sub_def example_fit_def)
  have er: "error_response example_fit None (Some []) None = ([Finite 2, Finite 4], [])"
    by (simp add: example_fit_def)
  have wls: "\<And>M w dd b. get_param_WLS example_fit M w dd b = (dd, None, dd)"
    by (simp add: example_fit_def)
  have upd: "update_linear_kwargs_point_source example_fit [Finite 4, Finite 5] None (Some [])
              = Inr (None, Some [])"
    by (simp add: update_linear_kwargs_point_source_def example_fit_def)
  have a2i: "array_masked2image example_fit [Finite 4, Finite 5] = [[Finite 4, Finite 5]]"
    by (simp add: example_fit_def)
  have run: "priv_image_linear_solve_point_sources example_fit [[Finite 1, Finite 2]] None
               (Some []) None False
             = Inr (([[Finite 4, Finite 5]], [], None, [Finite 4, Finite 5]), Some [])"
    by (simp add: priv_image_linear_solve_point_sources_def A d er wls upd a2i)
  have len: "length (image2array_masked example_fit [[Finite 1, Finite 2]])
               = length (data_response example_fit)"
    by (simp add: example_fit_def)
  from point_source_solve_on_residual [OF run len] run len
  show ?thesis by blast
qed

end
